theory Spec2Isabelle
  imports Complex_Main
begin

section \<open>The 10X serial dilution protocol for the OT-2\<close>

text \<open>
  The repository holds one Python script, \<^verbatim>\<open>ot-2_fast_10x_serial_dilution.py\<close>. It
  fixes two module constants (\<^verbatim>\<open>instances\<close>, \<^verbatim>\<open>filled_columns\<close>), checks them once at
  module level, and defines \<^verbatim>\<open>run(protocol)\<close>, which loads labware through a switch on
  the instance count, loads one pipette and issues the pipetting commands in two nested
  loops.

  The embedding passes the state explicitly. The state records what the script prints,
  every call it makes on the protocol context and on the pipette, in order, and the two
  lists \<^verbatim>\<open>dilutionplate_10X\<close> and \<^verbatim>\<open>tiprack_10X\<close> that the switch fills. What ends the
  script early (\<^verbatim>\<open>sys.exit()\<close>, a subscript out of range) is a value of type \<open>halt\<close>,
  returned together with the state reached at that moment. Calls into the robot's API
  are recorded and return normally: the script handles no failure of theirs, and a
  failure inside the API (no tip left to pick up, a slot loaded twice) is not modelled.
\<close>

subsection \<open>Data\<close>

text \<open>What stops the script: \<^verbatim>\<open>sys.exit(arg)\<close> raises SystemExit with its argument
  (\<open>None\<close> when called as \<^verbatim>\<open>sys.exit()\<close>); a list subscript out of range raises
  IndexError; calling something that is not callable raises TypeError.\<close>

datatype halt = SystemExit "int option" | IndexError | TypeError

text \<open>The exit status of the Python process: SystemExit with no argument is status 0,
  with an integer that integer, an uncaught exception is status 1.\<close>

fun exit_status :: "halt \<Rightarrow> int" where
  "exit_status (SystemExit None) = 0"
| "exit_status (SystemExit (Some n)) = n"
| "exit_status IndexError = 1"
| "exit_status TypeError = 1"

text \<open>A labware handle, as \<^verbatim>\<open>protocol.load_labware(name, slot)\<close> returns it.\<close>

record labware =
  labware_type :: string
  slot :: int

text \<open>A well of a labware, addressed by column and row index.\<close>

record well =
  well_labware :: labware
  well_column :: nat
  well_row :: nat

text \<open>The calls on the pipette. \<^verbatim>\<open>mix(repetitions, volume, location, rate)\<close> has two
  optional arguments: the script's first call passes a location and no rate, its second
  a rate and no location.\<close>

datatype cmd =
    PickUpTip
  | DropTip
  | Aspirate int well
  | Dispense int well
  | Mix int int "well option" "real option"

record state =
  stdout :: "string list"
  loaded :: "labware list"
  dilutionplate_10X :: "labware list"
  tiprack_10X :: "labware list"
  instruments :: "(string \<times> string \<times> labware list) list"
  commands :: "cmd list"

type_synonym outcome = "(halt \<times> state) + state"

text \<open>The values a user edits in the script: the two module constants and the mix
  rate. The rate is a Python float that the script only passes on; a real number stands
  for it. The script's other parameters are the constants below.\<close>

record config =
  instances :: int
  filled_columns :: int
  mix_rate :: real

definition tiprack_type :: string where
  "tiprack_type = ''opentrons_96_filtertiprack_200ul''"

definition plate_type :: string where
  "plate_type = ''corning_96_wellplate_360ul_flat''"

definition pipette_type :: string where
  "pipette_type = ''p300_multi_gen2''"

definition dilution_volume :: int where
  "dilution_volume = 20"

definition mix_repetitions :: int where
  "mix_repetitions = 15"

definition mix_volume :: int where
  "mix_volume = 20"

definition init :: state where
  "init = \<lparr>stdout = [], loaded = [], dilutionplate_10X = [], tiprack_10X = [],
            instruments = [], commands = []\<rparr>"

subsection \<open>Python's list subscript and range\<close>

text \<open>\<^verbatim>\<open>xs[i]\<close>: a negative index counts from the end, an index out of range raises.\<close>

definition subscript :: "'a list \<Rightarrow> int \<Rightarrow> halt + 'a" where
  "subscript xs i =
     (let n = int (length xs); k = (if i < 0 then n + i else i)
      in if 0 \<le> k \<and> k < n then Inr (xs ! nat k) else Inl IndexError)"

text \<open>\<^verbatim>\<open>range(n)\<close> is \<open>0, \<dots>, n - 1\<close>, and empty when \<open>n \<le> 0\<close>.\<close>

definition range_py :: "int \<Rightarrow> int list" where
  "range_py n = map int [0..<nat n]"

text \<open>A \<^verbatim>\<open>for\<close> loop: the body runs on each element in turn, and the loop stops at
  the first one that raises.\<close>

fun for_each :: "'a list \<Rightarrow> ('a \<Rightarrow> state \<Rightarrow> outcome) \<Rightarrow> state \<Rightarrow> outcome" where
  "for_each [] body s = Inr s"
| "for_each (x # xs) body s =
     (case body x s of Inl e \<Rightarrow> Inl e | Inr s' \<Rightarrow> for_each xs body s')"

subsection \<open>What the script calls\<close>

text \<open>Python's \<^verbatim>\<open>print\<close> adds a line to the standard output. The calls on the
  protocol context and on the pipette are appended to the record of their kind.\<close>

definition print :: "string \<Rightarrow> state \<Rightarrow> state" where
  "print line s = s\<lparr>stdout := stdout s @ [line]\<rparr>"

definition load_labware :: "string \<Rightarrow> int \<Rightarrow> state \<Rightarrow> labware \<times> state" where
  "load_labware name n s =
     (let lw = \<lparr>labware_type = name, slot = n\<rparr>
      in (lw, s\<lparr>loaded := loaded s @ [lw]\<rparr>))"

definition load_instrument :: "string \<Rightarrow> string \<Rightarrow> labware list \<Rightarrow> state \<Rightarrow> state" where
  "load_instrument name mount tip_racks s =
     s\<lparr>instruments := instruments s @ [(name, mount, tip_racks)]\<rparr>"

definition emit :: "cmd list \<Rightarrow> state \<Rightarrow> state" where
  "emit cs s = s\<lparr>commands := commands s @ cs\<rparr>"

definition pick_up_tip :: "state \<Rightarrow> state" where
  "pick_up_tip = emit [PickUpTip]"

definition drop_tip :: "state \<Rightarrow> state" where
  "drop_tip = emit [DropTip]"

definition aspirate :: "int \<Rightarrow> well \<Rightarrow> state \<Rightarrow> state" where
  "aspirate v w = emit [Aspirate v w]"

definition dispense :: "int \<Rightarrow> well \<Rightarrow> state \<Rightarrow> state" where
  "dispense v w = emit [Dispense v w]"

definition mix :: "int \<Rightarrow> int \<Rightarrow> well option \<Rightarrow> real option \<Rightarrow> state \<Rightarrow> state" where
  "mix n v location rate = emit [Mix n v location rate]"

text \<open>Modelled from the spec: the geometry of the loaded labware, which the vendor's
  labware library defines and the repository does not hold. The spec's plate resource
  has 8 rows and 12 columns of wells (both labware types are 96-well formats), so
  \<^verbatim>\<open>columns()\<close> is a list of 12 columns of 8 wells each.\<close>

definition columns :: "labware \<Rightarrow> well list list" where
  "columns lw =
     map (\<lambda>c. map (\<lambda>r. \<lparr>well_labware = lw, well_column = c, well_row = r\<rparr>) [0..<8]) [0..<12]"

subsection \<open>The script\<close>

text \<open>\<^verbatim>\<open>how_many(num)\<close>: the name of the switch attribute; it prints when the number is
  not one of 1 to 6.\<close>

definition how_many :: "int \<Rightarrow> state \<Rightarrow> string \<times> state" where
  "how_many num s =
     (if num = 6 then (''six'', s)
      else if num = 5 then (''five'', s)
      else if num = 4 then (''four'', s)
      else if num = 3 then (''three'', s)
      else if num = 2 then (''two'', s)
      else if num = 1 then (''one'', s)
      else (''default'',
            print (''ERROR: Must set instances variable as integer between 1 and 6 '' @
                   ''inclusive. Program exiting.'') s))"

text \<open>The two statement pairs of the switch's methods: load a labware and append the
  handle to the list of its kind.\<close>

definition add_tiprack :: "int \<Rightarrow> state \<Rightarrow> state" where
  "add_tiprack n s =
     (let (t, s1) = load_labware tiprack_type n s
      in s1\<lparr>tiprack_10X := tiprack_10X s1 @ [t]\<rparr>)"

definition add_plate :: "int \<Rightarrow> state \<Rightarrow> state" where
  "add_plate n s =
     (let (p, s1) = load_labware plate_type n s
      in s1\<lparr>dilutionplate_10X := dilutionplate_10X s1 @ [p]\<rparr>)"

text \<open>The methods of the class \<^verbatim>\<open>switch\<close>. Each but \<^verbatim>\<open>one\<close> and \<^verbatim>\<open>default\<close> ends by
  calling the next lower one.\<close>

definition switch_default :: "state \<Rightarrow> outcome" where
  "switch_default s = Inl (SystemExit None, s)"

definition switch_one :: "state \<Rightarrow> outcome" where
  "switch_one s = Inr (add_plate 9 (add_tiprack 8 s))"

definition switch_two :: "state \<Rightarrow> outcome" where
  "switch_two s = switch_one (add_plate 11 (add_tiprack 10 s))"

definition switch_three :: "state \<Rightarrow> outcome" where
  "switch_three s = switch_two (add_plate 7 (add_tiprack 4 s))"

definition switch_four :: "state \<Rightarrow> outcome" where
  "switch_four s = switch_three (add_plate 5 (add_tiprack 6 s))"

definition switch_five :: "state \<Rightarrow> outcome" where
  "switch_five s = switch_four (add_plate 3 (add_tiprack 2 s))"

definition switch_six :: "state \<Rightarrow> outcome" where
  "switch_six s = switch_five (add_plate 1 s)"

text \<open>\<^verbatim>\<open>getattr(switch, name, 'default')()\<close>: the method of that name is called; for a
  name the class does not have, \<^verbatim>\<open>getattr\<close> returns the string \<^verbatim>\<open>'default'\<close>, and
  calling a string raises TypeError.\<close>

definition getattr_switch :: "string \<Rightarrow> state \<Rightarrow> outcome" where
  "getattr_switch name s =
     (if name = ''six'' then switch_six s
      else if name = ''five'' then switch_five s
      else if name = ''four'' then switch_four s
      else if name = ''three'' then switch_three s
      else if name = ''two'' then switch_two s
      else if name = ''one'' then switch_one s
      else if name = ''default'' then switch_default s
      else Inl (TypeError, s))"

text \<open>The layout selection, line 155 of the script:
  \<^verbatim>\<open>getattr(switch, how_many(instances), 'default')()\<close>.\<close>

definition select_layout :: "int \<Rightarrow> state \<Rightarrow> outcome" where
  "select_layout n s = (let (name, s1) = how_many n s in getattr_switch name s1)"

text \<open>\<^verbatim>\<open>plates[i].columns()[j][0]\<close>: the first well of column \<open>j\<close> of plate \<open>i\<close>.\<close>

definition first_well :: "labware list \<Rightarrow> int \<Rightarrow> int \<Rightarrow> halt + well" where
  "first_well plates i j =
     (case subscript plates i of
        Inl e \<Rightarrow> Inl e
      | Inr p \<Rightarrow>
          (case subscript (columns p) j of
             Inl e \<Rightarrow> Inl e
           | Inr col \<Rightarrow> subscript col 0))"

text \<open>The body of the inner loop (lines 190 to 196). Each argument is evaluated just
  before its call, so a subscript that raises leaves the earlier calls issued.\<close>

definition column_body :: "config \<Rightarrow> int \<Rightarrow> int \<Rightarrow> state \<Rightarrow> outcome" where
  "column_body cfg i j s =
     (let s1 = pick_up_tip s in
      case first_well (dilutionplate_10X s1) i j of
        Inl e \<Rightarrow> Inl (e, s1)
      | Inr src \<Rightarrow>
          (let s2 = aspirate dilution_volume src s1 in
           case first_well (dilutionplate_10X s2) i (j + 1) of
             Inl e \<Rightarrow> Inl (e, s2)
           | Inr dst \<Rightarrow>
               (let s3 = dispense dilution_volume dst s2;
                    s4 = mix mix_repetitions mix_volume None (Some (mix_rate cfg)) s3
                in Inr (drop_tip s4))))"

text \<open>The body of the outer loop (lines 184 to 196).\<close>

definition instance_body :: "config \<Rightarrow> int \<Rightarrow> state \<Rightarrow> outcome" where
  "instance_body cfg i s =
     (let s1 = pick_up_tip s in
      case first_well (dilutionplate_10X s1) i 0 of
        Inl e \<Rightarrow> Inl (e, s1)
      | Inr w \<Rightarrow>
          (let s2 = mix mix_repetitions mix_volume (Some w) None s1;
               s3 = drop_tip s2
           in for_each (range_py (filled_columns cfg - 1)) (column_body cfg i) s3))"

text \<open>\<^verbatim>\<open>run(protocol)\<close>: the layout, the pipette, the commands.\<close>

definition run :: "config \<Rightarrow> state \<Rightarrow> outcome" where
  "run cfg s =
     (case select_layout (instances cfg) s of
        Inl e \<Rightarrow> Inl e
      | Inr s1 \<Rightarrow>
          (let s2 = load_instrument pipette_type ''right'' (tiprack_10X s1) s1
           in for_each (range_py (instances cfg)) (instance_body cfg) s2))"

text \<open>The whole script, as the robot's runtime executes it: the module is loaded, which
  runs the module-level check (lines 27 to 30), and then \<^verbatim>\<open>run\<close> is called on a fresh
  protocol context.\<close>

definition program :: "config \<Rightarrow> outcome" where
  "program cfg =
     (if instances cfg = 6 \<and> filled_columns cfg > 10
      then Inl (SystemExit None,
                print (''ERROR: Too many columns need to be filled for the number of '' @
                       ''tipracks available. Program exiting.'') init)
      else run cfg init)"

text \<open>What an outcome shows: how the script stopped, and the state it left.\<close>

fun halted :: "outcome \<Rightarrow> halt option" where
  "halted (Inl (h, s)) = Some h"
| "halted (Inr s) = None"

fun final :: "outcome \<Rightarrow> state" where
  "final (Inl (h, s)) = s"
| "final (Inr s) = s"

definition emitted :: "config \<Rightarrow> cmd list" where
  "emitted cfg = commands (final (program cfg))"

text \<open>The status the process exits with: 0 when the script runs to its end.\<close>

definition process_status :: "outcome \<Rightarrow> int" where
  "process_status out = (case halted out of None \<Rightarrow> 0 | Some h \<Rightarrow> exit_status h)"

subsection \<open>Properties of a command sequence\<close>

text \<open>The pipette holds a tip or not. A sequence keeps the tip discipline when every
  pick-up happens without a tip, every other command with one, and no tip is held at
  the end.\<close>

fun tip_discipline :: "bool \<Rightarrow> cmd list \<Rightarrow> bool" where
  "tip_discipline held [] = (\<not> held)"
| "tip_discipline held (PickUpTip # cs) = (\<not> held \<and> tip_discipline True cs)"
| "tip_discipline held (DropTip # cs) = (held \<and> tip_discipline False cs)"
| "tip_discipline held (c # cs) = (held \<and> tip_discipline held cs)"

fun is_tip_event :: "cmd \<Rightarrow> bool" where
  "is_tip_event PickUpTip = True"
| "is_tip_event DropTip = True"
| "is_tip_event c = False"

text \<open>On the pick-ups and drops alone: they alternate, a pick-up first.\<close>

fun alternates :: "cmd list \<Rightarrow> bool" where
  "alternates [] = True"
| "alternates [c] = (c = PickUpTip)"
| "alternates (c # d # cs) = (c = PickUpTip \<and> d = DropTip \<and> alternates cs)"

text \<open>The tip cycles of a sequence: it is cut after every drop; commands after the last
  drop, if any, form a last piece.\<close>

fun split_cycles :: "cmd list \<Rightarrow> cmd list \<Rightarrow> cmd list list" where
  "split_cycles acc [] = (if acc = [] then [] else [acc])"
| "split_cycles acc (DropTip # cs) = (acc @ [DropTip]) # split_cycles [] cs"
| "split_cycles acc (c # cs) = split_cycles (acc @ [c]) cs"

definition tip_cycles :: "cmd list \<Rightarrow> cmd list list" where
  "tip_cycles cs = split_cycles [] cs"

text \<open>The two shapes of a tip cycle: a mix of a given well alone, and one column
  transfer (aspirate, dispense, mix in place).\<close>

definition is_mix_only :: "cmd list \<Rightarrow> bool" where
  "is_mix_only cyc =
     (case cyc of [PickUpTip, Mix n v (Some w) None, DropTip] \<Rightarrow> True | _ \<Rightarrow> False)"

definition is_transfer :: "cmd list \<Rightarrow> bool" where
  "is_transfer cyc =
     (case cyc of
        [PickUpTip, Aspirate v w, Dispense v' w', Mix n mv None (Some r), DropTip] \<Rightarrow> True
      | _ \<Rightarrow> False)"

text \<open>Every aspirate is followed at once by a dispense of the same volume into the first
  well of the next column of the same plate.\<close>

fun dispense_follows :: "cmd list \<Rightarrow> bool" where
  "dispense_follows [] = True"
| "dispense_follows (Aspirate v w # cs) =
     ((case cs of
         Dispense v' w' # _ \<Rightarrow>
           v' = v \<and> well_labware w' = well_labware w \<and> well_column w' = well_column w + 1
           \<and> well_row w = 0 \<and> well_row w' = 0
       | _ \<Rightarrow> False)
      \<and> dispense_follows cs)"
| "dispense_follows (c # cs) = dispense_follows cs"

text \<open>A command with the rate of a mix in place forgotten: two sequences that agree
  after \<open>map erase_rate\<close> differ in those rates at most.\<close>

fun erase_rate :: "cmd \<Rightarrow> cmd" where
  "erase_rate (Mix n v None rate) = Mix n v None None"
| "erase_rate c = c"

text \<open>The two forms of a mix: at a given well, a first well of column 0, with no rate;
  or in place, with the rate \<open>r\<close>.\<close>

fun mix_form :: "real \<Rightarrow> cmd \<Rightarrow> bool" where
  "mix_form r (Mix n v (Some w) rate) = (rate = None \<and> well_column w = 0 \<and> well_row w = 0)"
| "mix_form r (Mix n v None rate) = (rate = Some r)"
| "mix_form r c = True"

text \<open>Every mix in place comes right after a dispense, so it happens where the liquid
  has just been dispensed. \<open>prev\<close> is the command before the sequence, if any.\<close>

fun in_place_after :: "cmd option \<Rightarrow> cmd list \<Rightarrow> bool" where
  "in_place_after prev [] = True"
| "in_place_after prev (Mix n v None rate # cs) =
     ((case prev of Some (Dispense dv w) \<Rightarrow> True | _ \<Rightarrow> False)
      \<and> in_place_after (Some (Mix n v None rate)) cs)"
| "in_place_after prev (c # cs) = in_place_after (Some c) cs"

text \<open>Every dispense is followed at once by a mix in place at the configured
  repetitions and volume and the rate \<open>r\<close>: the mix after a dispense names no well.\<close>

fun mix_after_dispense :: "real \<Rightarrow> cmd list \<Rightarrow> bool" where
  "mix_after_dispense r [] = True"
| "mix_after_dispense r (Dispense v w # cs) =
     ((case cs of
         c # _ \<Rightarrow> c = Mix mix_repetitions mix_volume None (Some r)
       | [] \<Rightarrow> False)
      \<and> mix_after_dispense r cs)"
| "mix_after_dispense r (c # cs) = mix_after_dispense r cs"

text \<open>The mix calls of a sequence are what \<open>filter is_mix\<close> keeps of it.\<close>

fun is_mix :: "cmd \<Rightarrow> bool" where
  "is_mix (Mix n v location rate) = True"
| "is_mix c = False"

subsection \<open>The command sequences in closed form\<close>

text \<open>Used in the proofs: what one pass of each loop body issues when no subscript
  raises, what the first instance issues when the column index runs off the plate, and
  the state in which the loops start.\<close>

definition first_of :: "labware \<Rightarrow> nat \<Rightarrow> well" where
  "first_of p j = \<lparr>well_labware = p, well_column = j, well_row = 0\<rparr>"

definition mix_only_cmds :: "labware \<Rightarrow> cmd list" where
  "mix_only_cmds p =
     [PickUpTip, Mix mix_repetitions mix_volume (Some (first_of p 0)) None, DropTip]"

definition transfer_cmds :: "real \<Rightarrow> labware \<Rightarrow> nat \<Rightarrow> cmd list" where
  "transfer_cmds r p j =
     [PickUpTip, Aspirate dilution_volume (first_of p j),
      Dispense dilution_volume (first_of p (Suc j)),
      Mix mix_repetitions mix_volume None (Some r), DropTip]"

definition instance_cmds :: "real \<Rightarrow> int \<Rightarrow> labware \<Rightarrow> cmd list" where
  "instance_cmds r fc p =
     mix_only_cmds p @ concat (map (transfer_cmds r p) [0..<nat (fc - 1)])"

definition overflow_cmds :: "real \<Rightarrow> labware \<Rightarrow> cmd list" where
  "overflow_cmds r p =
     mix_only_cmds p @ concat (map (transfer_cmds r p) [0..<11]) @
     [PickUpTip, Aspirate dilution_volume (first_of p 11)]"

definition layout_state :: "int \<Rightarrow> state" where
  "layout_state n =
     (let s = final (select_layout n init)
      in load_instrument pipette_type ''right'' (tiprack_10X s) s)"

section \<open>What the script does\<close>

subsection \<open>The layout selection\<close>

lemma how_many_valid:
  "how_many 1 s = (''one'', s)" "how_many 2 s = (''two'', s)" "how_many 3 s = (''three'', s)"
  "how_many 4 s = (''four'', s)" "how_many 5 s = (''five'', s)" "how_many 6 s = (''six'', s)"
  by (simp_all add: how_many_def)

lemma how_many_invalid:
  "n < 1 \<or> 6 < n \<Longrightarrow>
   how_many n s =
     (''default'',
      print (''ERROR: Must set instances variable as integer between 1 and 6 '' @
             ''inclusive. Program exiting.'') s)"
  unfolding how_many_def by auto

lemma getattr_switch_names:
  "getattr_switch ''one'' = switch_one" "getattr_switch ''two'' = switch_two"
  "getattr_switch ''three'' = switch_three" "getattr_switch ''four'' = switch_four"
  "getattr_switch ''five'' = switch_five" "getattr_switch ''six'' = switch_six"
  "getattr_switch ''default'' = switch_default"
  by (simp_all add: getattr_switch_def fun_eq_iff)

lemma add_plate_fields:
  "stdout (add_plate n s) = stdout s"
  "loaded (add_plate n s) = loaded s @ [\<lparr>labware_type = plate_type, slot = n\<rparr>]"
  "dilutionplate_10X (add_plate n s) =
     dilutionplate_10X s @ [\<lparr>labware_type = plate_type, slot = n\<rparr>]"
  "tiprack_10X (add_plate n s) = tiprack_10X s"
  "instruments (add_plate n s) = instruments s"
  "commands (add_plate n s) = commands s"
  by (simp_all add: add_plate_def load_labware_def Let_def)

lemma add_tiprack_fields:
  "stdout (add_tiprack n s) = stdout s"
  "loaded (add_tiprack n s) = loaded s @ [\<lparr>labware_type = tiprack_type, slot = n\<rparr>]"
  "dilutionplate_10X (add_tiprack n s) = dilutionplate_10X s"
  "tiprack_10X (add_tiprack n s) =
     tiprack_10X s @ [\<lparr>labware_type = tiprack_type, slot = n\<rparr>]"
  "instruments (add_tiprack n s) = instruments s"
  "commands (add_tiprack n s) = commands s"
  by (simp_all add: add_tiprack_def load_labware_def Let_def)

lemma init_fields:
  "stdout init = []" "loaded init = []" "dilutionplate_10X init = []"
  "tiprack_10X init = []" "instruments init = []" "commands init = []"
  by (simp_all add: init_def)

lemma print_fields:
  "stdout (print l s) = stdout s @ [l]" "loaded (print l s) = loaded s"
  "dilutionplate_10X (print l s) = dilutionplate_10X s"
  "tiprack_10X (print l s) = tiprack_10X s" "instruments (print l s) = instruments s"
  "commands (print l s) = commands s"
  by (simp_all add: print_def)

lemma select_layout_valid:
  "select_layout 1 s = Inr (add_plate 9 (add_tiprack 8 s))"
  "select_layout 2 s = Inr (add_plate 9 (add_tiprack 8 (add_plate 11 (add_tiprack 10 s))))"
  "select_layout 3 s =
     Inr (add_plate 9 (add_tiprack 8 (add_plate 11 (add_tiprack 10
            (add_plate 7 (add_tiprack 4 s))))))"
  "select_layout 4 s =
     Inr (add_plate 9 (add_tiprack 8 (add_plate 11 (add_tiprack 10
            (add_plate 7 (add_tiprack 4 (add_plate 5 (add_tiprack 6 s))))))))"
  "select_layout 5 s =
     Inr (add_plate 9 (add_tiprack 8 (add_plate 11 (add_tiprack 10
            (add_plate 7 (add_tiprack 4 (add_plate 5 (add_tiprack 6
              (add_plate 3 (add_tiprack 2 s))))))))))"
  "select_layout 6 s =
     Inr (add_plate 9 (add_tiprack 8 (add_plate 11 (add_tiprack 10
            (add_plate 7 (add_tiprack 4 (add_plate 5 (add_tiprack 6
              (add_plate 3 (add_tiprack 2 (add_plate 1 s)))))))))))"
  by (simp_all add: select_layout_def how_many_valid getattr_switch_names switch_six_def
      switch_five_def switch_four_def switch_three_def switch_two_def switch_one_def)

lemma select_layout_invalid:
  "n < 1 \<or> 6 < n \<Longrightarrow>
   select_layout n s =
     Inl (SystemExit None,
          print (''ERROR: Must set instances variable as integer between 1 and 6 '' @
                 ''inclusive. Program exiting.'') s)"
  by (simp add: select_layout_def how_many_invalid getattr_switch_names switch_default_def)

lemma valid_count_cases:
  "1 \<le> n \<Longrightarrow> n \<le> 6 \<Longrightarrow> n = 1 \<or> n = 2 \<or> n = 3 \<or> n = 4 \<or> n = 5 \<or> n = (6::int)"
  by arith

lemmas layout_simps = select_layout_valid add_plate_fields add_tiprack_fields init_fields

subsection \<open>The state under the API calls\<close>

lemma emit_fields:
  "stdout (emit cs s) = stdout s" "loaded (emit cs s) = loaded s"
  "dilutionplate_10X (emit cs s) = dilutionplate_10X s"
  "tiprack_10X (emit cs s) = tiprack_10X s" "instruments (emit cs s) = instruments s"
  "commands (emit cs s) = commands s @ cs"
  by (simp_all add: emit_def)

lemma emit_emit: "emit cs (emit ds s) = emit (ds @ cs) s"
  by (simp add: emit_def)

lemma emit_Nil: "emit [] s = s"
  by (simp add: emit_def)

lemma load_instrument_fields:
  "stdout (load_instrument a b c s) = stdout s" "loaded (load_instrument a b c s) = loaded s"
  "dilutionplate_10X (load_instrument a b c s) = dilutionplate_10X s"
  "tiprack_10X (load_instrument a b c s) = tiprack_10X s"
  "instruments (load_instrument a b c s) = instruments s @ [(a, b, c)]"
  "commands (load_instrument a b c s) = commands s"
  by (simp_all add: load_instrument_def)

subsection \<open>Subscripts on the plate\<close>

lemma subscript_in_range:
  "0 \<le> i \<Longrightarrow> nat i < length xs \<Longrightarrow> subscript xs i = Inr (xs ! nat i)"
  by (simp add: subscript_def Let_def)

lemma subscript_beyond:
  "int (length xs) \<le> i \<Longrightarrow> subscript xs i = Inl IndexError"
  by (simp add: subscript_def Let_def)

lemma length_columns: "length (columns p) = 12"
  by (simp add: columns_def)

lemma nth_columns:
  "j < 12 \<Longrightarrow>
   columns p ! j = map (\<lambda>r. \<lparr>well_labware = p, well_column = j, well_row = r\<rparr>) [0..<8]"
  by (simp add: columns_def)

lemma first_well_in_range:
  assumes "0 \<le> i" and "nat i < length ps" and "0 \<le> j" and "j < 12"
  shows "first_well ps i j = Inr (first_of (ps ! nat i) (nat j))"
proof -
  have col: "subscript (columns (ps ! nat i)) j = Inr (columns (ps ! nat i) ! nat j)"
    using assms by (intro subscript_in_range) (simp_all add: length_columns)
  have nj: "nat j < 12" using assms by simp
  have w: "subscript (columns (ps ! nat i) ! nat j) 0 = Inr (first_of (ps ! nat i) (nat j))"
    by (simp add: nth_columns [OF nj] subscript_def first_of_def upt_rec)
  show ?thesis
    by (simp add: first_well_def subscript_in_range [OF assms(1,2)] col w)
qed

lemma first_well_beyond:
  assumes "0 \<le> i" and "nat i < length ps" and "12 \<le> j"
  shows "first_well ps i j = Inl IndexError"
  using assms
  by (simp add: first_well_def subscript_in_range subscript_beyond length_columns)

subsection \<open>The loops while the column index stays on the plate\<close>

lemma column_body_ok:
  assumes "0 \<le> i" and "nat i < length (dilutionplate_10X s)" and "0 \<le> j" and "j < 11"
  shows "column_body cfg i j s =
           Inr (emit (transfer_cmds (mix_rate cfg) (dilutionplate_10X s ! nat i) (nat j)) s)"
proof -
  have a: "first_well (dilutionplate_10X s) i j =
             Inr (first_of (dilutionplate_10X s ! nat i) (nat j))"
    using assms by (intro first_well_in_range) simp_all
  have b: "first_well (dilutionplate_10X s) i (j + 1) =
             Inr (first_of (dilutionplate_10X s ! nat i) (Suc (nat j)))"
    using assms first_well_in_range [of i "dilutionplate_10X s" "j + 1"]
    by (simp add: nat_add_distrib)
  show ?thesis
    by (simp add: column_body_def pick_up_tip_def aspirate_def dispense_def mix_def
        drop_tip_def Let_def emit_fields emit_emit a b transfer_cmds_def)
qed

lemma for_each_emit:
  assumes "\<And>x t. x \<in> set xs \<Longrightarrow> dilutionplate_10X t = ps \<Longrightarrow> body x t = Inr (emit (f x) t)"
    and "dilutionplate_10X s = ps"
  shows "for_each xs body s = Inr (emit (concat (map f xs)) s)"
  using assms
proof (induction xs arbitrary: s)
  case Nil
  then show ?case by (simp add: emit_Nil)
next
  case (Cons x xs)
  have "body x s = Inr (emit (f x) s)"
    using Cons.prems by simp
  moreover have "for_each xs body (emit (f x) s) = Inr (emit (concat (map f xs)) (emit (f x) s))"
    using Cons.prems by (intro Cons.IH) (simp_all add: emit_fields)
  ultimately show ?case by (simp add: emit_emit)
qed

lemma mem_range_py: "(i \<in> set (range_py n)) = (0 \<le> i \<and> i < n)"
proof
  assume "i \<in> set (range_py n)"
  then obtain k where "i = int k" and "k < nat n"
    by (auto simp: range_py_def)
  then show "0 \<le> i \<and> i < n" by auto
next
  assume a: "0 \<le> i \<and> i < n"
  then have "nat i \<in> set [0..<nat n]" by auto
  then have "int (nat i) \<in> set (range_py n)"
    unfolding range_py_def by (simp only: set_map) (rule imageI)
  with a show "i \<in> set (range_py n)" by simp
qed

lemma instance_body_ok:
  assumes "0 \<le> i" and "nat i < length (dilutionplate_10X s)" and "filled_columns cfg \<le> 12"
  shows "instance_body cfg i s =
           Inr (emit (instance_cmds (mix_rate cfg) (filled_columns cfg)
                        (dilutionplate_10X s ! nat i)) s)"
proof -
  let ?ps = "dilutionplate_10X s"
  let ?p = "?ps ! nat i"
  let ?s3 = "emit (mix_only_cmds ?p) s"
  have w: "first_well ?ps i 0 = Inr (first_of ?p 0)"
    using assms first_well_in_range [of i ?ps 0] by simp
  have step: "instance_body cfg i s =
                for_each (range_py (filled_columns cfg - 1)) (column_body cfg i) ?s3"
    by (simp add: instance_body_def pick_up_tip_def mix_def drop_tip_def Let_def
        emit_fields emit_emit w mix_only_cmds_def)
  have loop: "for_each (range_py (filled_columns cfg - 1)) (column_body cfg i) ?s3 =
                Inr (emit (concat (map (\<lambda>j. transfer_cmds (mix_rate cfg) ?p (nat j))
                                     (range_py (filled_columns cfg - 1)))) ?s3)"
  proof (rule for_each_emit [where ps = ?ps])
    fix j and t :: state
    assume j: "j \<in> set (range_py (filled_columns cfg - 1))" and t: "dilutionplate_10X t = ?ps"
    from j assms(3) have "0 \<le> j" "j < 11" by (auto simp: mem_range_py)
    with assms t show "column_body cfg i j t = Inr (emit (transfer_cmds (mix_rate cfg) ?p (nat j)) t)"
      using column_body_ok [of i t j cfg] by simp
  qed (simp add: emit_fields)
  have "map (\<lambda>j. transfer_cmds (mix_rate cfg) ?p (nat j)) (range_py (filled_columns cfg - 1)) =
        map (transfer_cmds (mix_rate cfg) ?p) [0..<nat (filled_columns cfg - 1)]"
    by (simp add: range_py_def o_def)
  with step loop show ?thesis
    by (simp add: emit_emit instance_cmds_def)
qed

lemma map_range_py_nth:
  "map (\<lambda>i. f (xs ! nat i)) (range_py (int (length xs))) = map f xs"
proof -
  have "map (\<lambda>i. f (xs ! nat i)) (range_py (int (length xs))) =
        map (\<lambda>k. f (xs ! k)) [0..<length xs]"
    by (simp add: range_py_def o_def)
  also have "\<dots> = map f (map ((!) xs) [0..<length xs])"
    by (simp add: o_def)
  also have "\<dots> = map f xs"
    by (simp only: map_nth)
  finally show ?thesis .
qed

lemma instances_loop_ok:
  assumes "filled_columns cfg \<le> 12" and "n = int (length (dilutionplate_10X s))"
  shows "for_each (range_py n) (instance_body cfg) s =
           Inr (emit (concat (map (instance_cmds (mix_rate cfg) (filled_columns cfg))
                                (dilutionplate_10X s))) s)"
proof -
  let ?ps = "dilutionplate_10X s"
  let ?f = "instance_cmds (mix_rate cfg) (filled_columns cfg)"
  have "for_each (range_py n) (instance_body cfg) s =
          Inr (emit (concat (map (\<lambda>i. ?f (?ps ! nat i)) (range_py n))) s)"
  proof (rule for_each_emit [where ps = ?ps])
    fix i and t :: state
    assume i: "i \<in> set (range_py n)" and t: "dilutionplate_10X t = ?ps"
    from i assms(2) have "0 \<le> i" "nat i < length ?ps" by (auto simp: mem_range_py)
    with assms(1) t show "instance_body cfg i t = Inr (emit (?f (?ps ! nat i)) t)"
      using instance_body_ok [of i t cfg] by simp
  qed simp
  moreover have "map (\<lambda>i. ?f (?ps ! nat i)) (range_py n) = map ?f ?ps"
    using assms(2) by (simp only: map_range_py_nth)
  ultimately show ?thesis by simp
qed

subsection \<open>Properties of the closed forms\<close>

text \<open>A property of sequences that holds of the empty one and survives a tip cycle put in
  front holds of every sequence the loops issue.\<close>

lemma is_mix_only_cmds: "is_mix_only (mix_only_cmds p)"
  by (simp add: is_mix_only_def mix_only_cmds_def)

lemma is_transfer_cmds: "is_transfer (transfer_cmds r p j)"
  by (simp add: is_transfer_def transfer_cmds_def)

lemma not_transfer_mix_only: "\<not> is_transfer (mix_only_cmds p)"
  by (simp add: is_transfer_def mix_only_cmds_def)

lemma not_mix_only_transfer: "\<not> is_mix_only (transfer_cmds r p j)"
  by (simp add: is_mix_only_def transfer_cmds_def)

lemma trace_property:
  assumes nil: "K []"
    and mix: "\<And>p rest. K rest \<Longrightarrow> K (mix_only_cmds p @ rest)"
    and transfer: "\<And>p j rest. K rest \<Longrightarrow> K (transfer_cmds r p j @ rest)"
  shows "K (concat (map (instance_cmds r fc) ps))"
proof (induction ps)
  case Nil
  show ?case using nil by simp
next
  case (Cons p ps)
  have "K (concat (map (transfer_cmds r p) js) @ rest)" if "K rest" for js rest
    using that by (induction js) (simp_all add: transfer)
  then have "K (concat (map (transfer_cmds r p) [0..<nat (fc - 1)]) @
                concat (map (instance_cmds r fc) ps))"
    using Cons.IH by blast
  then have "K (mix_only_cmds p @ (concat (map (transfer_cmds r p) [0..<nat (fc - 1)]) @
                concat (map (instance_cmds r fc) ps)))"
    by (rule mix)
  moreover have "concat (map (instance_cmds r fc) (p # ps)) =
      mix_only_cmds p @ (concat (map (transfer_cmds r p) [0..<nat (fc - 1)]) @
        concat (map (instance_cmds r fc) ps))"
    by (simp add: instance_cmds_def)
  ultimately show ?case by (simp only:)
qed

lemma tip_cycles_mix_only: "tip_cycles (mix_only_cmds p @ rest) = mix_only_cmds p # tip_cycles rest"
  by (simp add: tip_cycles_def mix_only_cmds_def)

lemma tip_cycles_transfer:
  "tip_cycles (transfer_cmds r p j @ rest) = transfer_cmds r p j # tip_cycles rest"
  by (simp add: tip_cycles_def transfer_cmds_def)

lemma tip_cycles_Nil: "tip_cycles [] = []"
  by (simp add: tip_cycles_def)

lemma trace_tip_discipline: "tip_discipline False (concat (map (instance_cmds r fc) ps))"
  by (rule trace_property) (simp_all add: mix_only_cmds_def transfer_cmds_def)

lemma trace_alternates: "alternates (filter is_tip_event (concat (map (instance_cmds r fc) ps)))"
  by (rule trace_property) (simp_all add: mix_only_cmds_def transfer_cmds_def)

lemma trace_cycles:
  "list_all (\<lambda>cyc. is_mix_only cyc \<or> is_transfer cyc)
     (tip_cycles (concat (map (instance_cmds r fc) ps)))"
  by (rule trace_property)
     (simp_all add: tip_cycles_Nil tip_cycles_mix_only tip_cycles_transfer is_mix_only_cmds
        is_transfer_cmds)

lemma trace_dispense_follows: "dispense_follows (concat (map (instance_cmds r fc) ps))"
  by (rule trace_property) (simp_all add: mix_only_cmds_def transfer_cmds_def first_of_def)

subsection \<open>The loops when the column index runs off the plate\<close>

lemma layout_ok:
  assumes "1 \<le> n" and "n \<le> 6"
  shows "select_layout n init = Inr (final (select_layout n init))"
    and "length (dilutionplate_10X (final (select_layout n init))) = nat n"
    and "stdout (final (select_layout n init)) = []"
    and "commands (final (select_layout n init)) = []"
  using valid_count_cases [OF assms]
  by (elim disjE; simp add: layout_simps)+

lemma for_each_stops:
  "for_each xs body s = Inr s' \<Longrightarrow> body k s' = Inl e \<Longrightarrow>
   for_each (xs @ k # rest) body s = Inl e"
  by (induction xs arbitrary: s) (auto split: sum.splits)

lemma range_py_split:
  assumes "0 \<le> k" and "k < n"
  shows "\<exists>rest. range_py n = range_py k @ k # rest"
proof -
  have "[0..<nat n] = [0..<nat k] @ [nat k..<nat n]"
    using assms by (metis le_add_diff_inverse less_imp_le nat_mono upt_add_eq_append zero_le)
  moreover have "[nat k..<nat n] = nat k # [Suc (nat k)..<nat n]"
    using assms by (simp add: upt_conv_Cons)
  ultimately have "range_py n = range_py k @ k # map int [Suc (nat k)..<nat n]"
    using assms by (simp add: range_py_def)
  then show ?thesis by blast
qed

lemma column_body_overflow:
  assumes "0 \<le> i" and "nat i < length (dilutionplate_10X s)"
  shows "column_body cfg i 11 s =
           Inl (IndexError,
                emit [PickUpTip,
                      Aspirate dilution_volume (first_of (dilutionplate_10X s ! nat i) 11)] s)"
proof -
  have a: "first_well (dilutionplate_10X s) i 11 =
             Inr (first_of (dilutionplate_10X s ! nat i) 11)"
    using assms first_well_in_range [of i "dilutionplate_10X s" 11] by simp
  have b: "first_well (dilutionplate_10X s) i 12 = Inl IndexError"
    using assms by (intro first_well_beyond) simp_all
  show ?thesis
    by (simp add: column_body_def pick_up_tip_def aspirate_def Let_def emit_fields emit_emit a b)
qed

lemma instance_body_overflow:
  assumes "0 \<le> i" and "nat i < length (dilutionplate_10X s)" and "12 < filled_columns cfg"
  shows "instance_body cfg i s =
           Inl (IndexError, emit (overflow_cmds (mix_rate cfg) (dilutionplate_10X s ! nat i)) s)"
proof -
  let ?ps = "dilutionplate_10X s"
  let ?p = "?ps ! nat i"
  let ?s3 = "emit (mix_only_cmds ?p) s"
  let ?s4 = "emit (concat (map (transfer_cmds (mix_rate cfg) ?p) [0..<11])) ?s3"
  have w: "first_well ?ps i 0 = Inr (first_of ?p 0)"
    using assms first_well_in_range [of i ?ps 0] by simp
  have step: "instance_body cfg i s =
                for_each (range_py (filled_columns cfg - 1)) (column_body cfg i) ?s3"
    by (simp add: instance_body_def pick_up_tip_def mix_def drop_tip_def Let_def
        emit_fields emit_emit w mix_only_cmds_def)
  obtain rest where split: "range_py (filled_columns cfg - 1) = range_py 11 @ 11 # rest"
    using range_py_split [of 11 "filled_columns cfg - 1"] assms(3) by auto
  have "for_each (range_py 11) (column_body cfg i) ?s3 =
          Inr (emit (concat (map (\<lambda>j. transfer_cmds (mix_rate cfg) ?p (nat j)) (range_py 11))) ?s3)"
  proof (rule for_each_emit [where ps = ?ps])
    fix j and t :: state
    assume j: "j \<in> set (range_py 11)" and t: "dilutionplate_10X t = ?ps"
    from j have "0 \<le> j" "j < 11" by (auto simp: mem_range_py)
    with assms t show "column_body cfg i j t = Inr (emit (transfer_cmds (mix_rate cfg) ?p (nat j)) t)"
      using column_body_ok [of i t j cfg] by simp
  qed (simp add: emit_fields)
  moreover have "map (\<lambda>j. transfer_cmds (mix_rate cfg) ?p (nat j)) (range_py 11) =
        map (transfer_cmds (mix_rate cfg) ?p) [0..<11]"
    by (simp add: range_py_def o_def)
  ultimately have first: "for_each (range_py 11) (column_body cfg i) ?s3 = Inr ?s4"
    by simp
  have last: "column_body cfg i 11 ?s4 =
          Inl (IndexError, emit [PickUpTip, Aspirate dilution_volume (first_of ?p 11)] ?s4)"
    using column_body_overflow [of i ?s4 cfg] assms by (simp add: emit_fields)
  show ?thesis
    unfolding step split for_each_stops [OF first last]
    by (simp add: emit_emit overflow_cmds_def)
qed

lemma range_py_pos: "1 \<le> n \<Longrightarrow> \<exists>rest. range_py n = 0 # rest"
  using range_py_split [of 0 n] by (simp add: range_py_def)

subsection \<open>The four ways the script ends\<close>

text \<open>An instance count outside 1 to 6; six instances with more than 10 columns; a
  run to the end; a column index beyond the twelfth column.\<close>

lemma program_invalid:
  assumes "instances cfg < 1 \<or> 6 < instances cfg"
  shows "program cfg =
     Inl (SystemExit None,
          print (''ERROR: Must set instances variable as integer between 1 and 6 '' @
                 ''inclusive. Program exiting.'') init)"
  using assms by (auto simp: program_def run_def select_layout_invalid)

lemma program_guard:
  assumes "instances cfg = 6" and "10 < filled_columns cfg"
  shows "program cfg =
     Inl (SystemExit None,
          print (''ERROR: Too many columns need to be filled for the number of '' @
                 ''tipracks available. Program exiting.'') init)"
  using assms by (simp add: program_def)

lemma run_loop:
  assumes "1 \<le> instances cfg" and "instances cfg \<le> 6"
    and "\<not> (instances cfg = 6 \<and> 10 < filled_columns cfg)"
  shows "program cfg =
           for_each (range_py (instances cfg)) (instance_body cfg) (layout_state (instances cfg))"
proof -
  obtain s1 where s1: "select_layout (instances cfg) init = Inr s1"
    using layout_ok(1) [OF assms(1,2)] by blast
  then have "final (select_layout (instances cfg) init) = s1"
    by simp
  with s1 have "run cfg init =
      for_each (range_py (instances cfg)) (instance_body cfg) (layout_state (instances cfg))"
    by (simp add: run_def layout_state_def)
  with assms(3) show ?thesis by (auto simp: program_def)
qed

lemma layout_state_fields:
  "stdout (layout_state n) = stdout (final (select_layout n init))"
  "loaded (layout_state n) = loaded (final (select_layout n init))"
  "dilutionplate_10X (layout_state n) = dilutionplate_10X (final (select_layout n init))"
  "tiprack_10X (layout_state n) = tiprack_10X (final (select_layout n init))"
  "commands (layout_state n) = commands (final (select_layout n init))"
  by (simp_all add: layout_state_def Let_def load_instrument_fields)

lemma program_valid:
  assumes "1 \<le> instances cfg" and "instances cfg \<le> 6" and "filled_columns cfg \<le> 12"
    and "\<not> (instances cfg = 6 \<and> 10 < filled_columns cfg)"
  shows "program cfg =
     Inr (emit (concat (map (instance_cmds (mix_rate cfg) (filled_columns cfg))
                          (dilutionplate_10X (layout_state (instances cfg)))))
            (layout_state (instances cfg)))"
proof -
  have n: "instances cfg = int (length (dilutionplate_10X (layout_state (instances cfg))))"
    using assms(1,2) by (simp add: layout_state_fields layout_ok(2))
  have "program cfg =
      for_each (range_py (instances cfg)) (instance_body cfg) (layout_state (instances cfg))"
    using assms(1,2,4) by (rule run_loop)
  also have "\<dots> =
      Inr (emit (concat (map (instance_cmds (mix_rate cfg) (filled_columns cfg))
                          (dilutionplate_10X (layout_state (instances cfg)))))
            (layout_state (instances cfg)))"
    using assms(3) n by (rule instances_loop_ok)
  finally show ?thesis .
qed

lemma program_overflow:
  assumes "1 \<le> instances cfg" and "instances cfg \<le> 6" and "12 < filled_columns cfg"
    and "instances cfg \<noteq> 6"
  shows "program cfg =
     Inl (IndexError,
          emit (overflow_cmds (mix_rate cfg) (dilutionplate_10X (layout_state (instances cfg)) ! 0))
            (layout_state (instances cfg)))"
proof -
  obtain rest where r: "range_py (instances cfg) = 0 # rest"
    using range_py_pos assms(1) by blast
  have "0 < length (dilutionplate_10X (layout_state (instances cfg)))"
    using assms(1,2) by (simp add: layout_state_fields layout_ok(2))
  then have "instance_body cfg 0 (layout_state (instances cfg)) =
      Inl (IndexError,
          emit (overflow_cmds (mix_rate cfg) (dilutionplate_10X (layout_state (instances cfg)) ! 0))
            (layout_state (instances cfg)))"
    using instance_body_overflow [of 0 "layout_state (instances cfg)" cfg] assms(3) by simp
  then show ?thesis
    using assms by (simp add: run_loop r)
qed

subsection \<open>The command sequence of each way\<close>

lemma transfers_property:
  assumes "\<And>j rest. K rest \<Longrightarrow> K (transfer_cmds r p j @ rest)" and "K rest"
  shows "K (concat (map (transfer_cmds r p) js) @ rest)"
  using assms by (induction js) simp_all

lemma emitted_invalid:
  "instances cfg < 1 \<or> 6 < instances cfg \<Longrightarrow> emitted cfg = []"
  by (simp add: emitted_def program_invalid print_fields init_fields)

lemma emitted_guard:
  "instances cfg = 6 \<Longrightarrow> 10 < filled_columns cfg \<Longrightarrow> emitted cfg = []"
  by (simp add: emitted_def program_guard print_fields init_fields)

lemma emitted_valid:
  assumes "1 \<le> instances cfg" and "instances cfg \<le> 6" and "filled_columns cfg \<le> 12"
    and "\<not> (instances cfg = 6 \<and> 10 < filled_columns cfg)"
  shows "emitted cfg =
     concat (map (instance_cmds (mix_rate cfg) (filled_columns cfg))
               (dilutionplate_10X (layout_state (instances cfg))))"
  using assms(1,2)
  by (simp add: emitted_def program_valid [OF assms] emit_fields layout_state_fields layout_ok(4))

lemma emitted_overflow:
  assumes "1 \<le> instances cfg" and "instances cfg \<le> 6" and "12 < filled_columns cfg"
    and "instances cfg \<noteq> 6"
  shows "emitted cfg =
     overflow_cmds (mix_rate cfg) (dilutionplate_10X (layout_state (instances cfg)) ! 0)"
  using assms(1,2)
  by (simp add: emitted_def program_overflow [OF assms] emit_fields layout_state_fields
      layout_ok(4))

lemma overflow_tip_discipline: "\<not> tip_discipline False (overflow_cmds r p)"
  unfolding overflow_cmds_def mix_only_cmds_def
  by (simp, rule transfers_property) (simp_all add: transfer_cmds_def)

lemma overflow_dispense_follows: "\<not> dispense_follows (overflow_cmds r p)"
  unfolding overflow_cmds_def mix_only_cmds_def
  by (simp, rule transfers_property) (simp_all add: transfer_cmds_def first_of_def)

lemma overflow_mix_form: "list_all (mix_form r) (overflow_cmds r p)"
  by (auto simp: overflow_cmds_def mix_only_cmds_def transfer_cmds_def first_of_def list_all_iff)

lemma trace_mix_form: "list_all (mix_form r) (concat (map (instance_cmds r fc) ps))"
  by (rule trace_property) (simp_all add: mix_only_cmds_def transfer_cmds_def first_of_def)

lemma trace_in_place: "in_place_after prev (concat (map (instance_cmds r fc) ps))"
proof -
  have "\<forall>prev. in_place_after prev (concat (map (instance_cmds r fc) ps))"
    by (rule trace_property) (simp_all add: mix_only_cmds_def transfer_cmds_def)
  then show ?thesis by simp
qed

lemma overflow_in_place: "in_place_after prev (overflow_cmds r p)"
proof -
  have "\<forall>prev. in_place_after prev (concat (map (transfer_cmds r p) js) @
      [PickUpTip, Aspirate dilution_volume (first_of p 11)])" for js
    by (rule transfers_property) (simp_all add: transfer_cmds_def)
  then show ?thesis
    by (simp add: overflow_cmds_def mix_only_cmds_def)
qed

lemma trace_mix_after_dispense:
  "mix_after_dispense r (concat (map (instance_cmds r fc) ps))"
  by (rule trace_property) (simp_all add: mix_only_cmds_def transfer_cmds_def)

lemma overflow_mix_after_dispense: "mix_after_dispense r (overflow_cmds r p)"
  unfolding overflow_cmds_def mix_only_cmds_def
  by (simp, rule transfers_property) (simp_all add: transfer_cmds_def)

lemma mixes_transfers:
  "filter is_mix (concat (map (transfer_cmds r p) js)) =
     replicate (length js) (Mix mix_repetitions mix_volume None (Some r))"
  by (induction js) (simp_all add: transfer_cmds_def)

lemma mixes_instance:
  "filter is_mix (instance_cmds r fc p) =
     Mix mix_repetitions mix_volume
       (Some \<lparr>well_labware = p, well_column = 0, well_row = 0\<rparr>) None #
     replicate (nat (fc - 1)) (Mix mix_repetitions mix_volume None (Some r))"
  by (simp add: instance_cmds_def mixes_transfers mix_only_cmds_def first_of_def)

lemma mixes_trace:
  "filter is_mix (concat (map (instance_cmds r fc) ps)) =
     concat (map (\<lambda>p. Mix mix_repetitions mix_volume
                          (Some \<lparr>well_labware = p, well_column = 0, well_row = 0\<rparr>) None #
                        replicate (nat (fc - 1)) (Mix mix_repetitions mix_volume None (Some r)))
               ps)"
  by (induction ps) (simp_all add: mixes_instance)

lemma mixes_overflow:
  "filter is_mix (overflow_cmds r p) =
     Mix mix_repetitions mix_volume
       (Some \<lparr>well_labware = p, well_column = 0, well_row = 0\<rparr>) None #
     replicate 11 (Mix mix_repetitions mix_volume None (Some r))"
  by (simp add: overflow_cmds_def mixes_transfers mix_only_cmds_def first_of_def)

lemma take_one_nth: "xs \<noteq> [] \<Longrightarrow> take (Suc 0) xs = [xs ! 0]"
  by (cases xs) simp_all

lemma erase_rate_transfers:
  "map erase_rate (concat (map (transfer_cmds r p) js)) =
   map erase_rate (concat (map (transfer_cmds r' p) js))"
  by (induction js) (simp_all add: transfer_cmds_def)

lemma erase_rate_instance:
  "map erase_rate (instance_cmds r fc p) = map erase_rate (instance_cmds r' fc p)"
  unfolding instance_cmds_def map_append
  by (simp only: erase_rate_transfers [of r p _ r'])

lemma erase_rate_trace:
  "map erase_rate (concat (map (instance_cmds r fc) ps)) =
   map erase_rate (concat (map (instance_cmds r' fc) ps))"
  by (induction ps) (simp_all add: erase_rate_instance [of r _ _ r'])

lemma erase_rate_overflow:
  "map erase_rate (overflow_cmds r p) = map erase_rate (overflow_cmds r' p)"
  unfolding overflow_cmds_def map_append
  by (simp only: erase_rate_transfers [of r p _ r'])

lemma emit_frame: "(emit cs s)\<lparr>commands := []\<rparr> = s\<lparr>commands := []\<rparr>"
  by (simp add: emit_def)

lemma config_cases:
  fixes n fc :: int
  obtains (invalid) "n < 1 \<or> 6 < n"
  | (guard) "n = 6" "10 < fc"
  | (valid) "1 \<le> n" "n \<le> 6" "fc \<le> 12" "\<not> (n = 6 \<and> 10 < fc)"
  | (overflow) "1 \<le> n" "n \<le> 6" "12 < fc" "n \<noteq> 6"
  by fastforce

lemma mix_only_nonempty: "mix_only_cmds p \<noteq> []"
  by (simp add: mix_only_cmds_def)

lemma layout_plates_nonempty:
  "1 \<le> n \<Longrightarrow> n \<le> 6 \<Longrightarrow> dilutionplate_10X (layout_state n) \<noteq> []"
  using layout_ok(2) [of n] by (auto simp: layout_state_fields)

lemma layout_plates_2:
  "dilutionplate_10X (layout_state 2) =
     [\<lparr>labware_type = plate_type, slot = 11\<rparr>, \<lparr>labware_type = plate_type, slot = 9\<rparr>]"
  by (simp add: layout_state_fields layout_simps)

lemma layout_plates_3:
  "dilutionplate_10X (layout_state 3) =
     [\<lparr>labware_type = plate_type, slot = 7\<rparr>, \<lparr>labware_type = plate_type, slot = 11\<rparr>,
      \<lparr>labware_type = plate_type, slot = 9\<rparr>]"
  by (simp add: layout_state_fields layout_simps)

lemma tip_cycles_transfer_last: "tip_cycles (transfer_cmds r p j) = [transfer_cmds r p j]"
  by (simp add: tip_cycles_def transfer_cmds_def)

lemma last_overflow:
  "last (overflow_cmds r p) = Aspirate dilution_volume (first_of p 11)"
  by (simp add: overflow_cmds_def)

lemma instance_cmds_short: "fc \<le> 1 \<Longrightarrow> instance_cmds r fc p = mix_only_cmds p"
  by (simp add: instance_cmds_def)

section \<open>The claims of the specification\<close>

subsection \<open>C1: the resources of a layout\<close>

text \<open>C1 as stated fails at six instances. The switch's method \<^verbatim>\<open>six\<close> loads a plate
  on slot 1 and no tiprack of its own, so the layout for 6 has six plates, on slots 1, 3,
  5, 7, 11, 9, and five tipracks, on slots 2, 6, 4, 10, 8: not six tipracks.\<close>

theorem six_instances_five_tipracks:
  "map slot (dilutionplate_10X (final (select_layout 6 init))) = [1, 3, 5, 7, 11, 9]
   \<and> map slot (tiprack_10X (final (select_layout 6 init))) = [2, 6, 4, 10, 8]
   \<and> length (tiprack_10X (final (select_layout 6 init))) \<noteq> 6"
  by (simp add: layout_simps)

text \<open>C1, amended: for every instance count \<open>n\<close> from 1 to 6 the layout selection ends
  normally, loads exactly \<open>n\<close> plates and exactly \<open>min n 5\<close> tipracks (\<open>n\<close> tipracks up to
  five instances, five tipracks for six), each of the type of its kind; what is loaded is
  these plates and tipracks and nothing else, and no deck slot is used by more than one
  of them.\<close>

theorem layout_resources:
  assumes "1 \<le> n" and "n \<le> 6"
  shows "halted (select_layout n init) = None
       \<and> length (dilutionplate_10X (final (select_layout n init))) = nat n
       \<and> length (tiprack_10X (final (select_layout n init))) = nat (min n 5)
       \<and> list_all (\<lambda>l. labware_type l = plate_type)
            (dilutionplate_10X (final (select_layout n init)))
       \<and> list_all (\<lambda>l. labware_type l = tiprack_type)
            (tiprack_10X (final (select_layout n init)))
       \<and> set (loaded (final (select_layout n init))) =
           set (dilutionplate_10X (final (select_layout n init))) \<union>
           set (tiprack_10X (final (select_layout n init)))
       \<and> length (loaded (final (select_layout n init))) = nat n + nat (min n 5)
       \<and> distinct (map slot (loaded (final (select_layout n init))))"
  using valid_count_cases [OF assms]
  by (elim disjE) (simp_all add: layout_simps, auto)

text \<open>The amended C1 at six instances: six plates, five tipracks, eleven slots, none
  twice.\<close>

theorem layout_resources_witness:
  "(1::int) \<le> 6
   \<and> halted (select_layout 6 init) = None
   \<and> length (dilutionplate_10X (final (select_layout 6 init))) = 6
   \<and> length (tiprack_10X (final (select_layout 6 init))) = 5
   \<and> length (loaded (final (select_layout 6 init))) = 11
   \<and> distinct (map slot (loaded (final (select_layout 6 init))))"
  using layout_resources [of 6] by simp

subsection \<open>C2: the tip discipline\<close>

text \<open>C2 as stated fails with two instances and 13 filled columns. The plate has 12
  columns, so in the twelfth pass of the inner loop the script picks up a tip, aspirates
  from column index 11 and then raises IndexError on the subscript \<^verbatim>\<open>columns()[12]\<close>:
  the sequence ends with an aspirate, the tip still on, and no drop follows it.\<close>

theorem thirteen_columns_tip_left_on:
  "halted (program \<lparr>instances = 2, filled_columns = 13, mix_rate = 1\<rparr>) = Some IndexError
   \<and> last (emitted \<lparr>instances = 2, filled_columns = 13, mix_rate = 1\<rparr>) =
       Aspirate 20 \<lparr>well_labware = \<lparr>labware_type = plate_type, slot = 11\<rparr>,
                     well_column = 11, well_row = 0\<rparr>
   \<and> \<not> tip_discipline False (emitted \<lparr>instances = 2, filled_columns = 13, mix_rate = 1\<rparr>)"
  by (simp add: program_overflow emitted_overflow overflow_tip_discipline last_overflow
      layout_plates_2 first_of_def dilution_volume_def)

text \<open>C2, amended: in the command sequence of every run with an instance count from 1 to
  6 and at most 12 filled columns (the columns of the plate), pick-ups and drops
  alternate, a pick-up first; every aspirate, dispense and mix happens with a tip on, and
  the last tip is dropped; and every tip cycle is either one mix of a given well or one
  column transfer (aspirate, dispense, mix in place), so no tip serves two transfers.\<close>

theorem tips_fresh_per_transfer:
  assumes "1 \<le> instances cfg" and "instances cfg \<le> 6" and "filled_columns cfg \<le> 12"
  shows "alternates (filter is_tip_event (emitted cfg))
       \<and> tip_discipline False (emitted cfg)
       \<and> list_all (\<lambda>cyc. is_mix_only cyc \<or> is_transfer cyc) (tip_cycles (emitted cfg))"
proof (cases "instances cfg = 6 \<and> 10 < filled_columns cfg")
  case True
  then show ?thesis
    by (simp add: emitted_guard tip_cycles_Nil)
next
  case False
  show ?thesis
    unfolding emitted_valid [OF assms False]
    by (intro conjI trace_alternates trace_tip_discipline trace_cycles)
qed

text \<open>The amended C2 at six instances and 10 filled columns, the largest run on six
  plates.\<close>

theorem tips_fresh_per_transfer_witness:
  "(1::int) \<le> 6 \<and> (10::int) \<le> 12
   \<and> alternates (filter is_tip_event (emitted \<lparr>instances = 6, filled_columns = 10, mix_rate = 1\<rparr>))
   \<and> tip_discipline False (emitted \<lparr>instances = 6, filled_columns = 10, mix_rate = 1\<rparr>)
   \<and> list_all (\<lambda>cyc. is_mix_only cyc \<or> is_transfer cyc)
        (tip_cycles (emitted \<lparr>instances = 6, filled_columns = 10, mix_rate = 1\<rparr>))"
  using tips_fresh_per_transfer [of "\<lparr>instances = 6, filled_columns = 10, mix_rate = 1\<rparr>"]
  by simp

subsection \<open>C3: the detected errors\<close>

text \<open>C3 as stated fails at six instances and 11 filled columns: the module-level check
  prints its own diagnostic and calls \<^verbatim>\<open>sys.exit()\<close> before anything is loaded or
  issued. It is a second detected error, with an instance count from 1 to 6.\<close>

theorem six_instances_eleven_columns:
  "halted (program \<lparr>instances = 6, filled_columns = 11, mix_rate = 1\<rparr>) = Some (SystemExit None)
   \<and> stdout (final (program \<lparr>instances = 6, filled_columns = 11, mix_rate = 1\<rparr>)) =
       [''ERROR: Too many columns need to be filled for the number of '' @
        ''tipracks available. Program exiting.'']
   \<and> loaded (final (program \<lparr>instances = 6, filled_columns = 11, mix_rate = 1\<rparr>)) = []
   \<and> emitted \<lparr>instances = 6, filled_columns = 11, mix_rate = 1\<rparr> = []"
  by (simp add: program_guard emitted_def print_fields init_fields)

text \<open>C3, amended: the program detects two error conditions, an instance count outside 1
  to 6, and six instances together with more than 10 filled columns. In both it prints
  one diagnostic line and stops by \<^verbatim>\<open>sys.exit()\<close> with nothing loaded and no command
  issued. For every other instance count and filled-columns value it prints nothing, never
  stops by \<^verbatim>\<open>sys.exit()\<close>, and issues pipette commands.\<close>

theorem detected_errors:
  "if instances cfg < 1 \<or> 6 < instances cfg \<or> (instances cfg = 6 \<and> 10 < filled_columns cfg)
   then halted (program cfg) = Some (SystemExit None)
      \<and> length (stdout (final (program cfg))) = 1
      \<and> loaded (final (program cfg)) = []
      \<and> instruments (final (program cfg)) = []
      \<and> emitted cfg = []
   else (halted (program cfg) = None \<or> halted (program cfg) = Some IndexError)
      \<and> stdout (final (program cfg)) = []
      \<and> emitted cfg \<noteq> []"
proof (cases rule: config_cases [where n = "instances cfg" and fc = "filled_columns cfg"])
  case invalid
  then show ?thesis
    by (auto simp: program_invalid emitted_def print_fields init_fields)
next
  case guard
  then show ?thesis
    by (auto simp: program_guard emitted_def print_fields init_fields)
next
  case valid
  have "emitted cfg \<noteq> []"
    using layout_plates_nonempty [OF valid(1,2)]
    by (cases "dilutionplate_10X (layout_state (instances cfg))")
       (simp_all add: emitted_valid [OF valid] instance_cmds_def mix_only_nonempty)
  moreover have "stdout (final (program cfg)) = []"
    using valid(1,2)
    by (simp add: program_valid [OF valid] emit_fields layout_state_fields layout_ok(3))
  moreover have "halted (program cfg) = None"
    by (simp add: program_valid [OF valid])
  ultimately show ?thesis
    using valid by auto
next
  case overflow
  have "emitted cfg \<noteq> []"
    by (simp add: emitted_overflow [OF overflow] overflow_cmds_def mix_only_nonempty)
  moreover have "stdout (final (program cfg)) = []"
    using overflow(1,2)
    by (simp add: program_overflow [OF overflow] emit_fields layout_state_fields layout_ok(3))
  moreover have "halted (program cfg) = Some IndexError"
    by (simp add: program_overflow [OF overflow])
  ultimately show ?thesis
    using overflow by auto
qed

text \<open>The amended C3 on both sides: six instances with 11 columns stop at the check,
  six instances with 10 columns issue commands.\<close>

theorem detected_errors_witness:
  "halted (program \<lparr>instances = 6, filled_columns = 11, mix_rate = 1\<rparr>) = Some (SystemExit None)
   \<and> emitted \<lparr>instances = 6, filled_columns = 11, mix_rate = 1\<rparr> = []
   \<and> stdout (final (program \<lparr>instances = 6, filled_columns = 10, mix_rate = 1\<rparr>)) = []
   \<and> emitted \<lparr>instances = 6, filled_columns = 10, mix_rate = 1\<rparr> \<noteq> []"
  using detected_errors [of "\<lparr>instances = 6, filled_columns = 11, mix_rate = 1\<rparr>"]
    detected_errors [of "\<lparr>instances = 6, filled_columns = 10, mix_rate = 1\<rparr>"]
  by simp

subsection \<open>C4: the exit on an invalid instance count\<close>

text \<open>C4 as stated fails at instance count 0, the value in the script: the exit is
  \<^verbatim>\<open>sys.exit()\<close> with no argument, and the exit status of the process is 0, not
  nonzero.\<close>

theorem invalid_count_exit_status_zero:
  "halted (program \<lparr>instances = 0, filled_columns = 6, mix_rate = 1\<rparr>) = Some (SystemExit None)
   \<and> process_status (program \<lparr>instances = 0, filled_columns = 6, mix_rate = 1\<rparr>) = 0"
  by (simp add: program_invalid process_status_def)

text \<open>C4, amended: whenever the instance count is outside 1 to 6, the process prints
  the diagnostic of \<^verbatim>\<open>how_many\<close> and stops by \<^verbatim>\<open>sys.exit()\<close> called with no
  argument, that is with exit status 0.\<close>

theorem invalid_count_diagnostic:
  assumes "instances cfg < 1 \<or> 6 < instances cfg"
  shows "stdout (final (program cfg)) =
           [''ERROR: Must set instances variable as integer between 1 and 6 '' @
            ''inclusive. Program exiting.'']
       \<and> halted (program cfg) = Some (SystemExit None)
       \<and> process_status (program cfg) = 0"
  by (simp add: program_invalid [OF assms] print_fields init_fields process_status_def)

text \<open>The amended C4 at instance count 7.\<close>

theorem invalid_count_diagnostic_witness:
  "((7::int) < 1 \<or> (6::int) < 7)
   \<and> stdout (final (program \<lparr>instances = 7, filled_columns = 6, mix_rate = 1\<rparr>)) =
       [''ERROR: Must set instances variable as integer between 1 and 6 '' @
        ''inclusive. Program exiting.'']
   \<and> halted (program \<lparr>instances = 7, filled_columns = 6, mix_rate = 1\<rparr>) =
       Some (SystemExit None)
   \<and> process_status (program \<lparr>instances = 7, filled_columns = 6, mix_rate = 1\<rparr>) = 0"
  using invalid_count_diagnostic [of "\<lparr>instances = 7, filled_columns = 6, mix_rate = 1\<rparr>"]
  by simp

subsection \<open>C5: the nesting of the layouts\<close>

text \<open>C5 as stated fails at two instances: the plates of the layout for 2 are on slots
  11 then 9, the plate for 1 is on slot 9, and the first entry of the former, slot 11, is
  not the latter. Each method of the switch loads its own pair first and then calls the
  next lower method, so the new pair comes first in the lists.\<close>

theorem layout_suffix_not_prefix:
  "map slot (dilutionplate_10X (final (select_layout 2 init))) = [11, 9]
   \<and> map slot (dilutionplate_10X (final (select_layout 1 init))) = [9]
   \<and> take 1 (dilutionplate_10X (final (select_layout 2 init))) \<noteq>
       dilutionplate_10X (final (select_layout 1 init))"
  by (simp add: layout_simps)

text \<open>C5, amended: for every instance count \<open>n\<close> from 2 to 6, the ordered lists for
  \<open>n - 1\<close> are the lists for \<open>n\<close> without their leading entries, that is their last
  entries, not their first: the plates without the first plate; the tipracks without the
  first tiprack, and for 6 the whole tiprack list (the sixth instance adds no tiprack);
  and the loaded labware without the first two, for 6 the first one.\<close>

theorem layout_nesting:
  assumes "2 \<le> n" and "n \<le> 6"
  shows "dilutionplate_10X (final (select_layout (n - 1) init)) =
           drop 1 (dilutionplate_10X (final (select_layout n init)))
       \<and> tiprack_10X (final (select_layout (n - 1) init)) =
           drop (if n = 6 then 0 else 1) (tiprack_10X (final (select_layout n init)))
       \<and> loaded (final (select_layout (n - 1) init)) =
           drop (if n = 6 then 1 else 2) (loaded (final (select_layout n init)))"
proof -
  from assms have "n = 2 \<or> n = 3 \<or> n = 4 \<or> n = 5 \<or> n = 6" by arith
  then show ?thesis
    by (elim disjE) (simp_all add: layout_simps)
qed

text \<open>The amended C5 between six and five instances.\<close>

theorem layout_nesting_witness:
  "(2::int) \<le> 6
   \<and> dilutionplate_10X (final (select_layout 5 init)) =
       drop 1 (dilutionplate_10X (final (select_layout 6 init)))
   \<and> tiprack_10X (final (select_layout 5 init)) = tiprack_10X (final (select_layout 6 init))
   \<and> loaded (final (select_layout 5 init)) = drop 1 (loaded (final (select_layout 6 init)))"
  using layout_nesting [of 6] by simp

subsection \<open>C6: nothing is loaded or issued on an invalid instance count\<close>

text \<open>C6: for instance count 0 and every other value outside 1 to 6, the program stops
  (by \<^verbatim>\<open>sys.exit()\<close>) with no labware loaded, no instrument loaded and no pipette
  command issued.\<close>

theorem invalid_count_no_hardware:
  assumes "instances cfg < 1 \<or> 6 < instances cfg"
  shows "halted (program cfg) = Some (SystemExit None)
       \<and> loaded (final (program cfg)) = []
       \<and> instruments (final (program cfg)) = []
       \<and> commands (final (program cfg)) = []"
  by (simp add: program_invalid [OF assms] print_fields init_fields)

text \<open>C6 at instance count 0 and 6 filled columns, the values in the script.\<close>

theorem invalid_count_no_hardware_witness:
  "((0::int) < 1 \<or> (6::int) < 0)
   \<and> halted (program \<lparr>instances = 0, filled_columns = 6, mix_rate = 1\<rparr>) = Some (SystemExit None)
   \<and> loaded (final (program \<lparr>instances = 0, filled_columns = 6, mix_rate = 1\<rparr>)) = []
   \<and> instruments (final (program \<lparr>instances = 0, filled_columns = 6, mix_rate = 1\<rparr>)) = []
   \<and> commands (final (program \<lparr>instances = 0, filled_columns = 6, mix_rate = 1\<rparr>)) = []"
  using invalid_count_no_hardware [of "\<lparr>instances = 0, filled_columns = 6, mix_rate = 1\<rparr>"]
  by simp

subsection \<open>C7: three instances, six columns\<close>

text \<open>C7: a run with instance count 3 and 6 filled columns, at any mix rate, ends
  normally on three plates; its command sequence is 18 tip cycles, each from a pick-up to
  a drop; exactly 3 of them are mix-only, one per plate in order, each mixing the first
  well of column 0 of its plate; and exactly 15 are aspirate, dispense, mix
  transfers.\<close>

theorem three_instances_six_columns:
  "halted (program \<lparr>instances = 3, filled_columns = 6, mix_rate = r\<rparr>) = None
   \<and> length (dilutionplate_10X (final (program \<lparr>instances = 3, filled_columns = 6, mix_rate = r\<rparr>))) = 3
   \<and> concat (tip_cycles (emitted \<lparr>instances = 3, filled_columns = 6, mix_rate = r\<rparr>)) =
       emitted \<lparr>instances = 3, filled_columns = 6, mix_rate = r\<rparr>
   \<and> length (tip_cycles (emitted \<lparr>instances = 3, filled_columns = 6, mix_rate = r\<rparr>)) = 18
   \<and> filter is_mix_only (tip_cycles (emitted \<lparr>instances = 3, filled_columns = 6, mix_rate = r\<rparr>)) =
       map (\<lambda>p. [PickUpTip,
                  Mix mix_repetitions mix_volume
                    (Some \<lparr>well_labware = p, well_column = 0, well_row = 0\<rparr>) None,
                  DropTip])
         (dilutionplate_10X (final (program \<lparr>instances = 3, filled_columns = 6, mix_rate = r\<rparr>)))
   \<and> length (filter is_transfer
         (tip_cycles (emitted \<lparr>instances = 3, filled_columns = 6, mix_rate = r\<rparr>))) = 15"
proof -
  let ?c = "\<lparr>instances = 3, filled_columns = 6, mix_rate = r\<rparr>"
  have inst: "instance_cmds r 6 p =
      mix_only_cmds p @ transfer_cmds r p 0 @ transfer_cmds r p 1 @ transfer_cmds r p 2 @
      transfer_cmds r p 3 @ transfer_cmds r p 4" for p
    by (simp add: instance_cmds_def upt_rec eval_nat_numeral)
  have p: "program ?c =
      Inr (emit (concat (map (instance_cmds r 6) (dilutionplate_10X (layout_state 3))))
             (layout_state 3))"
    using program_valid [of ?c] by simp
  have e: "emitted ?c = concat (map (instance_cmds r 6) (dilutionplate_10X (layout_state 3)))"
    using emitted_valid [of ?c] by simp
  have cyc: "tip_cycles (emitted ?c) =
      concat (map (\<lambda>p. mix_only_cmds p # map (transfer_cmds r p) [0, 1, 2, 3, 4])
                (dilutionplate_10X (layout_state 3)))"
    unfolding e layout_plates_3
    by (simp add: inst tip_cycles_mix_only tip_cycles_transfer tip_cycles_transfer_last)
  have pl: "dilutionplate_10X (final (program ?c)) = dilutionplate_10X (layout_state 3)"
    by (simp add: p emit_fields)
  have "concat (tip_cycles (emitted ?c)) = emitted ?c"
    unfolding cyc unfolding e layout_plates_3
    by (simp add: inst)
  moreover have "length (tip_cycles (emitted ?c)) = 18"
    unfolding cyc layout_plates_3 by simp
  moreover have "filter is_mix_only (tip_cycles (emitted ?c)) =
       map (\<lambda>p. [PickUpTip,
                  Mix mix_repetitions mix_volume
                    (Some \<lparr>well_labware = p, well_column = 0, well_row = 0\<rparr>) None,
                  DropTip])
         (dilutionplate_10X (final (program ?c)))"
    unfolding cyc pl layout_plates_3
    by (simp add: is_mix_only_cmds not_mix_only_transfer) (simp add: mix_only_cmds_def first_of_def)
  moreover have "length (filter is_transfer (tip_cycles (emitted ?c))) = 15"
    unfolding cyc layout_plates_3
    by (simp add: is_transfer_cmds not_transfer_mix_only)
  moreover have "halted (program ?c) = None"
    by (simp add: p)
  moreover have "length (dilutionplate_10X (final (program ?c))) = 3"
    unfolding pl layout_plates_3 by simp
  ultimately show ?thesis by blast
qed

subsection \<open>C8: the dispense after each aspirate\<close>

text \<open>C8 as stated fails with two instances and 13 filled columns: the last command
  issued is the aspirate from column index 11 of the first plate, and the subscript for
  the dispense target, \<^verbatim>\<open>columns()[12]\<close>, raises IndexError, so no dispense follows
  that aspirate.\<close>

theorem thirteen_columns_aspirate_alone:
  "halted (program \<lparr>instances = 2, filled_columns = 13, mix_rate = 1\<rparr>) = Some IndexError
   \<and> \<not> dispense_follows (emitted \<lparr>instances = 2, filled_columns = 13, mix_rate = 1\<rparr>)"
  by (simp add: program_overflow emitted_overflow overflow_dispense_follows)

text \<open>C8, amended: in the command sequence of every run with at most 12 filled columns
  (the columns of the plate), each aspirate, from the first well of a column, is followed
  at once by a dispense of the same volume into the first well of the next column of the
  same plate; nothing comes between the two.\<close>

theorem dispense_after_aspirate:
  assumes "filled_columns cfg \<le> 12"
  shows "dispense_follows (emitted cfg)"
proof (cases rule: config_cases [where n = "instances cfg" and fc = "filled_columns cfg"])
  case invalid
  then show ?thesis by (simp add: emitted_invalid)
next
  case guard
  then show ?thesis by (simp add: emitted_guard)
next
  case valid
  then show ?thesis by (simp add: emitted_valid trace_dispense_follows)
next
  case overflow
  with assms show ?thesis by simp
qed

text \<open>The amended C8 at four instances and 12 filled columns, the whole plate.\<close>

theorem dispense_after_aspirate_witness:
  "(12::int) \<le> 12
   \<and> dispense_follows (emitted \<lparr>instances = 4, filled_columns = 12, mix_rate = 2\<rparr>)"
  using dispense_after_aspirate [of "\<lparr>instances = 4, filled_columns = 12, mix_rate = 2\<rparr>"]
  by simp

subsection \<open>C9: the mix rate\<close>

text \<open>C9: two runs that differ only in the mix rate stop the same way and agree on
  everything printed and loaded, and their command sequences are equal once the rate of
  each mix in place is forgotten. The mix calls of a run are exactly these, in order: for
  each plate of the run one mix of the first well of its column 0 that passes no rate,
  so it runs at the default rate; and after it one mix per column transfer that names no
  well and passes the configured rate (\<open>filled_columns - 1\<close> of them up to 12 filled
  columns; beyond, the run stops on the first plate after 11 of them). Every dispense is
  followed at once by such a mix in place, and every mix in place comes right after a
  dispense. A run that stops at one of the two checks has no plate and no mix call.\<close>

theorem mix_rate_frame:
  "halted (program (cfg\<lparr>mix_rate := r'\<rparr>)) = halted (program cfg)
   \<and> (final (program (cfg\<lparr>mix_rate := r'\<rparr>)))\<lparr>commands := []\<rparr> =
       (final (program cfg))\<lparr>commands := []\<rparr>
   \<and> map erase_rate (emitted (cfg\<lparr>mix_rate := r'\<rparr>)) = map erase_rate (emitted cfg)
   \<and> list_all (mix_form (mix_rate cfg)) (emitted cfg)
   \<and> in_place_after None (emitted cfg)
   \<and> mix_after_dispense (mix_rate cfg) (emitted cfg)
   \<and> length (dilutionplate_10X (final (program cfg))) =
       (if instances cfg < 1 \<or> 6 < instances cfg \<or>
           (instances cfg = 6 \<and> 10 < filled_columns cfg)
        then 0 else nat (instances cfg))
   \<and> filter is_mix (emitted cfg) =
       (if filled_columns cfg \<le> 12
        then concat (map (\<lambda>p. Mix mix_repetitions mix_volume
                                   (Some \<lparr>well_labware = p, well_column = 0, well_row = 0\<rparr>)
                                   None #
                                 replicate (nat (filled_columns cfg - 1))
                                   (Mix mix_repetitions mix_volume None (Some (mix_rate cfg))))
                       (dilutionplate_10X (final (program cfg))))
        else concat (map (\<lambda>p. Mix mix_repetitions mix_volume
                                   (Some \<lparr>well_labware = p, well_column = 0, well_row = 0\<rparr>)
                                   None #
                                 replicate 11
                                   (Mix mix_repetitions mix_volume None (Some (mix_rate cfg))))
                       (take 1 (dilutionplate_10X (final (program cfg))))))"
proof (cases rule: config_cases [where n = "instances cfg" and fc = "filled_columns cfg"])
  case invalid
  then show ?thesis
    by (auto simp: program_invalid emitted_invalid print_fields init_fields)
next
  case guard
  then show ?thesis
    by (simp add: program_guard emitted_guard print_fields init_fields)
next
  case valid
  have n: "length (dilutionplate_10X (layout_state (instances cfg))) = nat (instances cfg)"
    using valid(1,2) by (simp add: layout_state_fields layout_ok(2))
  from valid n show ?thesis
    by (simp add: program_valid emitted_valid emit_frame emit_fields trace_mix_form
        trace_in_place trace_mix_after_dispense mixes_trace
        erase_rate_trace [of r' _ _ "mix_rate cfg"])
next
  case overflow
  have n: "length (dilutionplate_10X (layout_state (instances cfg))) = nat (instances cfg)"
    using overflow(1,2) by (simp add: layout_state_fields layout_ok(2))
  have t: "take (Suc 0) (dilutionplate_10X (layout_state (instances cfg))) =
      [dilutionplate_10X (layout_state (instances cfg)) ! 0]"
    using layout_plates_nonempty [OF overflow(1,2)] by (rule take_one_nth)
  from overflow n show ?thesis
    by (simp add: program_overflow emitted_overflow emit_frame emit_fields overflow_mix_form
        overflow_in_place overflow_mix_after_dispense mixes_overflow t
        erase_rate_overflow [of r' _ "mix_rate cfg"])
qed

text \<open>C9 at two instances and 3 filled columns, at rate 2 against rate 1: the six mix
  calls of the run, the two first-column ones with a well and no rate, the four after a
  dispense with no well and rate 2.\<close>

theorem mix_rate_frame_witness:
  "filter is_mix (emitted \<lparr>instances = 2, filled_columns = 3, mix_rate = 2\<rparr>) =
     [Mix 15 20 (Some \<lparr>well_labware = \<lparr>labware_type = plate_type, slot = 11\<rparr>,
                       well_column = 0, well_row = 0\<rparr>) None,
      Mix 15 20 None (Some 2), Mix 15 20 None (Some 2),
      Mix 15 20 (Some \<lparr>well_labware = \<lparr>labware_type = plate_type, slot = 9\<rparr>,
                       well_column = 0, well_row = 0\<rparr>) None,
      Mix 15 20 None (Some 2), Mix 15 20 None (Some 2)]
   \<and> map erase_rate (emitted \<lparr>instances = 2, filled_columns = 3, mix_rate = 2\<rparr>) =
       map erase_rate (emitted \<lparr>instances = 2, filled_columns = 3, mix_rate = 1\<rparr>)
   \<and> mix_after_dispense 2 (emitted \<lparr>instances = 2, filled_columns = 3, mix_rate = 2\<rparr>)"
proof -
  let ?c = "\<lparr>instances = 2, filled_columns = 3, mix_rate = 1\<rparr>"
  have p: "dilutionplate_10X
               (final (program \<lparr>instances = 2, filled_columns = 3, mix_rate = 2\<rparr>)) =
      [\<lparr>labware_type = plate_type, slot = 11\<rparr>, \<lparr>labware_type = plate_type, slot = 9\<rparr>]"
    using program_valid [of "\<lparr>instances = 2, filled_columns = 3, mix_rate = 2\<rparr>"]
    by (simp add: emit_fields layout_plates_2)
  show ?thesis
    using mix_rate_frame [of 2 "?c"] mix_rate_frame [of 2 "?c\<lparr>mix_rate := 2\<rparr>"]
    by (simp add: p mix_repetitions_def mix_volume_def eval_nat_numeral)
qed

subsection \<open>C10: at most one filled column\<close>

text \<open>C10: for every instance count from 1 to 6 and every filled-columns value of at most
  1, zero and negative values included, the run ends normally, with no error, and its
  command sequence is, for each plate in turn, one pick-up, one mix of the first well of
  the plate's column 0 and one drop: no aspirate and no dispense is issued.\<close>

theorem mix_only_below_two_columns:
  assumes "1 \<le> instances cfg" and "instances cfg \<le> 6" and "filled_columns cfg \<le> 1"
  shows "halted (program cfg) = None
       \<and> length (dilutionplate_10X (final (program cfg))) = nat (instances cfg)
       \<and> emitted cfg =
           concat (map (\<lambda>p. [PickUpTip,
                              Mix mix_repetitions mix_volume
                                (Some \<lparr>well_labware = p, well_column = 0, well_row = 0\<rparr>) None,
                              DropTip])
                     (dilutionplate_10X (final (program cfg))))"
proof -
  have fc: "filled_columns cfg \<le> 12" and g: "\<not> (instances cfg = 6 \<and> 10 < filled_columns cfg)"
    using assms(3) by simp_all
  note p = program_valid [OF assms(1,2) fc g]
  have "instance_cmds (mix_rate cfg) (filled_columns cfg) = mix_only_cmds"
    using assms(3) by (simp add: fun_eq_iff instance_cmds_short)
  then have "emitted cfg = concat (map mix_only_cmds (dilutionplate_10X (layout_state (instances cfg))))"
    by (simp add: emitted_valid [OF assms(1,2) fc g])
  moreover have "dilutionplate_10X (final (program cfg)) =
      dilutionplate_10X (layout_state (instances cfg))"
    by (simp add: p emit_fields)
  moreover have "length (dilutionplate_10X (layout_state (instances cfg))) = nat (instances cfg)"
    using assms(1,2) by (simp add: layout_state_fields layout_ok(2))
  moreover have "mix_only_cmds = (\<lambda>p. [PickUpTip,
                              Mix mix_repetitions mix_volume
                                (Some \<lparr>well_labware = p, well_column = 0, well_row = 0\<rparr>) None,
                              DropTip])"
    by (simp add: fun_eq_iff mix_only_cmds_def first_of_def)
  ultimately show ?thesis
    by (simp add: p)
qed

text \<open>C10 at six instances and a negative filled-columns value.\<close>

theorem mix_only_below_two_columns_witness:
  "(1::int) \<le> 6 \<and> (- 3::int) \<le> 1
   \<and> halted (program \<lparr>instances = 6, filled_columns = - 3, mix_rate = 1\<rparr>) = None
   \<and> length (dilutionplate_10X
               (final (program \<lparr>instances = 6, filled_columns = - 3, mix_rate = 1\<rparr>))) = 6
   \<and> emitted \<lparr>instances = 6, filled_columns = - 3, mix_rate = 1\<rparr> =
       concat (map (\<lambda>p. [PickUpTip,
                          Mix mix_repetitions mix_volume
                            (Some \<lparr>well_labware = p, well_column = 0, well_row = 0\<rparr>) None,
                          DropTip])
                 (dilutionplate_10X
                    (final (program \<lparr>instances = 6, filled_columns = - 3, mix_rate = 1\<rparr>))))"
  using mix_only_below_two_columns [of "\<lparr>instances = 6, filled_columns = - 3, mix_rate = 1\<rparr>"]
  by simp

end
